theory Spec2Isabelle
  imports Complex_Main "HOL-Library.AList"
begin

section \<open>Python values\<close>

text \<open>
  The extractor works on whatever \<^verbatim>\<open>r.json()\<close> hands back: \<^verbatim>\<open>None\<close>, booleans, integers,
  floats, strings, lists and dictionaries with string keys. The annotations of the source
  (\<^verbatim>\<open>Dict[str, Any]\<close>) promise nothing more, so every field is a \<open>pyval\<close> and every method
  call on a value of the wrong shape is a branch that raises.

  A dictionary is an association list in insertion order; \<open>map_of\<close> reads it. The keys
  of a Python dictionary are distinct; nothing below depends on it except where it is said.
\<close>

datatype py_float = Finite rat | PosInf | NegInf | NaN

datatype pyval =
    PNone
  | PBool bool
  | PInt int
  | PFloat py_float
  | PStr string
  | PList "pyval list"
  | PDict "(string \<times> pyval) list"

text \<open>The exceptions that the source, \<^verbatim>\<open>requests\<close> and the interpreter raise on these paths.\<close>

datatype exn =
    KeyError string
  | AttributeError
  | TypeError
  | HTTPError int
  | JSONDecodeError
  | Timeout
  | ConnectionError

text \<open>Python's truth value, as \<^verbatim>\<open>if x\<close>, \<^verbatim>\<open>x or y\<close> test it.\<close>

fun truthy :: "pyval \<Rightarrow> bool" where
  "truthy PNone = False"
| "truthy (PBool b) = b"
| "truthy (PInt i) = (i \<noteq> 0)"
| "truthy (PFloat f) = (f \<noteq> Finite 0)"
| "truthy (PStr s) = (s \<noteq> [])"
| "truthy (PList xs) = (xs \<noteq> [])"
| "truthy (PDict kvs) = (kvs \<noteq> [])"

text \<open>\<^verbatim>\<open>a or b\<close>\<close>

definition py_or :: "pyval \<Rightarrow> pyval \<Rightarrow> pyval" where
  "py_or a b = (if truthy a then a else b)"

text \<open>
  \<^verbatim>\<open>d.get(k, dflt)\<close>. Only a dictionary has the method; on \<^verbatim>\<open>None\<close>, a list, a string or a
  number the attribute lookup raises \<^verbatim>\<open>AttributeError\<close>. A key that is present with the
  value \<^verbatim>\<open>None\<close> yields \<^verbatim>\<open>None\<close>, not the default.
\<close>

definition py_get :: "pyval \<Rightarrow> string \<Rightarrow> pyval \<Rightarrow> exn + pyval" where
  "py_get d k dflt =
     (case d of
        PDict kvs \<Rightarrow> Inr (case map_of kvs k of None \<Rightarrow> dflt | Some v \<Rightarrow> v)
      | _ \<Rightarrow> Inl AttributeError)"

text \<open>
  \<^verbatim>\<open>for x in v\<close>: a list yields its elements, a dictionary its keys, a string its
  one-character strings; anything else is not iterable.
\<close>

definition py_iter :: "pyval \<Rightarrow> exn + pyval list" where
  "py_iter v =
     (case v of
        PList xs \<Rightarrow> Inr xs
      | PDict kvs \<Rightarrow> Inr (map (\<lambda>kv. PStr (fst kv)) kvs)
      | PStr s \<Rightarrow> Inr (map (\<lambda>c. PStr [c]) s)
      | _ \<Rightarrow> Inl TypeError)"

text \<open>\<^verbatim>\<open>v[k]\<close> with a string key.\<close>

definition py_index :: "pyval \<Rightarrow> string \<Rightarrow> exn + pyval" where
  "py_index v k =
     (case v of
        PDict kvs \<Rightarrow> (case map_of kvs k of None \<Rightarrow> Inl (KeyError k) | Some x \<Rightarrow> Inr x)
      | _ \<Rightarrow> Inl TypeError)"

text \<open>
  Sequencing of steps that may raise: the first exception ends the computation, as an
  uncaught Python exception does (the source has no \<^verbatim>\<open>try\<close>).
\<close>

definition bind_exn :: "exn + 'a \<Rightarrow> ('a \<Rightarrow> exn + 'b) \<Rightarrow> exn + 'b" where
  "bind_exn m f = (case m of Inl e \<Rightarrow> Inl e | Inr x \<Rightarrow> f x)"

section \<open>The catalog's records\<close>

text \<open>
  \<^verbatim>\<open>Task\<close>, \<^verbatim>\<open>EntityReference\<close> and \<^verbatim>\<open>CreatePipelineRequest\<close> come from the catalog's client
  library. The records below hold the keyword arguments that the source passes to their
  constructors, value for value; what the library then makes of them (its own validation
  and coercion) is outside the source.
\<close>

record task =
  task_name :: pyval
  taskType :: pyval
  downstreamTasks :: "pyval list option"

record entity_reference =
  ref_id :: "pyval option"
  ref_type :: string
  ref_name :: string

record create_pipeline_request =
  name :: pyval
  displayName :: pyval
  description :: pyval
  service :: entity_reference
  tasks :: "task list"
  sourceUrl :: pyval

section \<open>Flattening activities\<close>

text \<open>The body of the loop of \<^verbatim>\<open>_build_tasks\<close>, for one activity descriptor.\<close>

definition build_task :: "pyval \<Rightarrow> exn + task" where
  "build_task act =
     bind_exn (py_get act ''name'' PNone) (\<lambda>nm.
     bind_exn (py_get act ''type'' PNone) (\<lambda>act_type.
     bind_exn
       (if act_type = PStr ''Copy'' then
          bind_exn (py_get act ''typeProperties'' (PDict [])) (\<lambda>tp.
          bind_exn (py_get tp ''sink'' (PDict [])) (\<lambda>s.
          bind_exn (py_get (py_or s (PDict [])) ''type'' PNone) (\<lambda>sink.
          Inr (if truthy sink then [sink] else []))))
        else Inr [])
       (\<lambda>deps.
     Inr \<lparr>task_name = py_or nm (PStr ''activity''),
          taskType = py_or act_type (PStr ''Activity''),
          downstreamTasks = (if deps \<noteq> [] then Some deps else None)\<rparr>)))"

text \<open>The loop itself: \<open>acc\<close> is the list \<^verbatim>\<open>tasks\<close> built so far.\<close>

fun build_tasks_loop :: "pyval list \<Rightarrow> task list \<Rightarrow> exn + task list" where
  "build_tasks_loop [] acc = Inr acc"
| "build_tasks_loop (act # rest) acc =
     bind_exn (build_task act) (\<lambda>t. build_tasks_loop rest (acc @ [t]))"

definition build_tasks :: "pyval \<Rightarrow> exn + task list" where
  "build_tasks activities =
     bind_exn (py_iter (py_or activities (PList []))) (\<lambda>acts. build_tasks_loop acts [])"

section \<open>The network\<close>

text \<open>
  A request is what the source hands to \<^verbatim>\<open>requests\<close>. Two values are kept symbolic because
  their text is computed by library code: \<open>Urljoin base path\<close> is the result of
  \<^verbatim>\<open>urljoin(base, path)\<close>, and \<open>Bearer t\<close> is the header value \<^verbatim>\<open>f"Bearer {t}"\<close>.
  The headers of a request are the ones the source sets; the defaults that \<^verbatim>\<open>requests\<close>
  adds on its own are left out.
\<close>

datatype http_method = GET | POST

datatype url = Absolute string | Urljoin string string

datatype header_value = Bearer pyval

record http_request =
  req_method :: http_method
  req_url :: url
  req_params :: "(string \<times> string) list"
  req_data :: "(string \<times> string) list"
  req_headers :: "(string \<times> header_value) list"
  req_timeout :: nat

text \<open>
  A response as the source reads it: the status code and the decoded body, \<open>None\<close> when
  the body is not JSON.
\<close>

record http_response =
  status_code :: int
  json_body :: "pyval option"

datatype http_outcome = Responded http_response | Failed exn

text \<open>
  The world outside is a script: the i-th call of \<^verbatim>\<open>requests\<close> gets the i-th outcome, and
  every call is logged in \<open>sent\<close>. A script that has run out refuses the connection.
\<close>

record net =
  sent :: "http_request list"
  pending :: "http_outcome list"

definition request :: "http_request \<Rightarrow> net \<Rightarrow> (exn + http_response) \<times> net" where
  "request rq w =
     (case pending w of
        [] \<Rightarrow> (Inl ConnectionError, w\<lparr>sent := sent w @ [rq]\<rparr>)
      | oc # rest \<Rightarrow>
          ((case oc of Failed e \<Rightarrow> Inl e | Responded r \<Rightarrow> Inr r),
           \<lparr>sent = sent w @ [rq], pending = rest\<rparr>))"

text \<open>
  \<^verbatim>\<open>Response.raise_for_status()\<close> of \<^verbatim>\<open>requests\<close>: an \<^verbatim>\<open>HTTPError\<close> carrying the response
  for a client error (400 to 499) or a server error (500 to 599), and a plain return for
  every other status.
\<close>

definition raise_for_status :: "http_response \<Rightarrow> exn + unit" where
  "raise_for_status r =
     (if 400 \<le> status_code r \<and> status_code r < 600
      then Inl (HTTPError (status_code r)) else Inr ())"

text \<open>\<^verbatim>\<open>Response.json()\<close>\<close>

definition resp_json :: "http_response \<Rightarrow> exn + pyval" where
  "resp_json r = (case json_body r of None \<Rightarrow> Inl JSONDecodeError | Some v \<Rightarrow> Inr v)"

section \<open>Token acquisition\<close>

definition ARM :: string where
  "ARM = ''https://management.azure.com/''"

definition get_azure_token :: "string \<Rightarrow> string \<Rightarrow> string \<Rightarrow> net \<Rightarrow> (exn + pyval) \<times> net" where
  "get_azure_token tenant_id client_id client_secret w =
     (case request
        \<lparr>req_method = POST,
         req_url = Absolute (''https://login.microsoftonline.com/'' @ tenant_id @ ''/oauth2/v2.0/token''),
         req_params = [],
         req_data =
           [(''grant_type'', ''client_credentials''),
            (''client_id'', client_id),
            (''client_secret'', client_secret),
            (''scope'', ''https://management.azure.com/.default'')],
         req_headers = [],
         req_timeout = 30\<rparr> w
      of (r, w') \<Rightarrow>
        (bind_exn r (\<lambda>resp.
         bind_exn (raise_for_status resp) (\<lambda>_.
         bind_exn (resp_json resp) (\<lambda>j.
         py_index j ''access_token''))), w'))"

section \<open>The extractor\<close>

text \<open>The attributes that \<^verbatim>\<open>__init__\<close> sets; \<open>sess_headers\<close> are the headers of \<^verbatim>\<open>self.sess\<close>.\<close>

record adf_source =
  sub :: string
  rg :: string
  factory :: string
  tenant :: string
  cid :: string
  csec :: string
  service_name :: string
  project :: string
  token :: pyval
  sess_headers :: "(string \<times> header_value) list"
  api_version :: string

text \<open>\<^verbatim>\<open>opts[k]\<close> on the connection options, a dictionary from strings to strings.\<close>

definition opt :: "(string \<times> string) list \<Rightarrow> string \<Rightarrow> exn + string" where
  "opt opts k = (case map_of opts k of None \<Rightarrow> Inl (KeyError k) | Some v \<Rightarrow> Inr v)"

text \<open>
  \<^verbatim>\<open>__init__\<close>, from the connection options on: the seven subscripts in the order of the
  source, the optional project, then the token call and the session.
\<close>

definition init :: "(string \<times> string) list \<Rightarrow> net \<Rightarrow> (exn + adf_source) \<times> net" where
  "init opts w =
     (case
        bind_exn (opt opts ''subscription_id'') (\<lambda>a.
        bind_exn (opt opts ''resource_group'') (\<lambda>b.
        bind_exn (opt opts ''factory_name'') (\<lambda>c.
        bind_exn (opt opts ''tenant_id'') (\<lambda>d.
        bind_exn (opt opts ''client_id'') (\<lambda>e.
        bind_exn (opt opts ''client_secret'') (\<lambda>f.
        bind_exn (opt opts ''service_name'') (\<lambda>g.
        Inr (a, b, c, d, e, f, g,
             (case map_of opts ''project'' of None \<Rightarrow> ''default'' | Some v \<Rightarrow> v)))))))))
      of
        Inl e \<Rightarrow> (Inl e, w)
      | Inr (a, b, c, d, e, f, g, pr) \<Rightarrow>
          (case get_azure_token d e f w of
             (Inl e, w') \<Rightarrow> (Inl e, w')
           | (Inr tok, w') \<Rightarrow>
               (Inr \<lparr>sub = a, rg = b, factory = c, tenant = d, cid = e, csec = f,
                     service_name = g, project = pr, token = tok,
                     sess_headers = [(''Authorization'', Bearer tok)],
                     api_version = ''2018-06-01''\<rparr>, w')))"

text \<open>\<^verbatim>\<open>p.update(params)\<close>: a key already there keeps its place and takes the new value.\<close>

definition dict_update :: "(string \<times> 'v) list \<Rightarrow> (string \<times> 'v) list \<Rightarrow> (string \<times> 'v) list" where
  "dict_update p q = foldl (\<lambda>d kv. AList.update (fst kv) (snd kv) d) p q"

text \<open>\<^verbatim>\<open>_arm\<close>; \<open>params\<close> is \<open>None\<close> when the argument is left out.\<close>

definition arm :: "adf_source \<Rightarrow> string \<Rightarrow> (string \<times> string) list option \<Rightarrow> net \<Rightarrow> (exn + pyval) \<times> net" where
  "arm self path params w =
     (let p0 = [(''api-version'', api_version self)];
          p = (case params of
                 None \<Rightarrow> p0
               | Some q \<Rightarrow> if q \<noteq> [] then dict_update p0 q else p0)
      in case request
           \<lparr>req_method = GET, req_url = Urljoin ARM path, req_params = p, req_data = [],
            req_headers = sess_headers self, req_timeout = 60\<rparr> w
         of (r, w') \<Rightarrow>
           (bind_exn r (\<lambda>resp.
            bind_exn (raise_for_status resp) (\<lambda>_. resp_json resp)), w'))"

definition list_pipelines :: "adf_source \<Rightarrow> net \<Rightarrow> (exn + pyval) \<times> net" where
  "list_pipelines self w =
     (case arm self
        (''/subscriptions/'' @ sub self @ ''/resourceGroups/'' @ rg self
           @ ''/providers/Microsoft.DataFactory/factories/'' @ factory self @ ''/pipelines'')
        None w
      of (r, w') \<Rightarrow> (bind_exn r (\<lambda>data. py_get data ''value'' (PList [])), w'))"

text \<open>The body of the loop of \<^verbatim>\<open>next_record\<close>, for one pipeline descriptor.\<close>

definition build_record :: "adf_source \<Rightarrow> pyval \<Rightarrow> exn + create_pipeline_request" where
  "build_record self p =
     bind_exn (py_get p ''name'' PNone) (\<lambda>nm.
     bind_exn (py_get p ''properties'' (PDict [])) (\<lambda>props.
     bind_exn (py_get props ''activities'' (PList [])) (\<lambda>acts.
     bind_exn (build_tasks acts) (\<lambda>ts.
     bind_exn (py_get props ''description'' PNone) (\<lambda>descr.
     bind_exn (py_get p ''id'' PNone) (\<lambda>rid.
     Inr \<lparr>name = nm,
          displayName = nm,
          description = descr,
          service = \<lparr>ref_id = None, ref_type = ''pipelineService'', ref_name = service_name self\<rparr>,
          tasks = ts,
          sourceUrl = py_or rid (PStr [])\<rparr>))))))"

text \<open>
  The generator, run to its end: the records it yields, in order, and the exception that
  ends it early, if any. A record yielded before the exception has reached the consumer.
\<close>

fun yield_records :: "adf_source \<Rightarrow> pyval list \<Rightarrow> create_pipeline_request list \<times> exn option" where
  "yield_records self [] = ([], None)"
| "yield_records self (p # ps) =
     (case build_record self p of
        Inl e \<Rightarrow> ([], Some e)
      | Inr r \<Rightarrow> (case yield_records self ps of (rs, e) \<Rightarrow> (r # rs, e)))"

definition next_record :: "adf_source \<Rightarrow> net \<Rightarrow> (create_pipeline_request list \<times> exn option) \<times> net" where
  "next_record self w =
     (case list_pipelines self w of (r, w') \<Rightarrow>
        (case bind_exn r py_iter of
           Inl e \<Rightarrow> ([], Some e)
         | Inr ps \<Rightarrow> yield_records self ps,
         w'))"

section \<open>Vocabulary of the specification\<close>

text \<open>
  The specification speaks of the fields of a descriptor. \<open>field d k\<close> is the field \<open>k\<close>
  of \<open>d\<close>: present when \<open>d\<close> is an object that has the key. \<open>or_none\<close> reads an optional
  field the way \<^verbatim>\<open>d.get(k)\<close> does, with \<^verbatim>\<open>None\<close> for a missing one.
\<close>

definition field :: "pyval \<Rightarrow> string \<Rightarrow> pyval option" where
  "field d k = (case d of PDict kvs \<Rightarrow> map_of kvs k | _ \<Rightarrow> None)"

definition or_none :: "pyval option \<Rightarrow> pyval" where
  "or_none x = (case x of None \<Rightarrow> PNone | Some v \<Rightarrow> v)"

text \<open>
  ``Absent or empty'': the key is missing, or its value is one that Python counts as false.
  For a string field these are the missing key, \<^verbatim>\<open>null\<close> and the empty string; an empty
  list or object, zero and \<^verbatim>\<open>false\<close> count as empty too.
\<close>

definition absent_or_empty :: "pyval option \<Rightarrow> bool" where
  "absent_or_empty x = (case x of None \<Rightarrow> True | Some v \<Rightarrow> \<not> truthy v)"


text \<open>
  The activity descriptors of a pipeline descriptor: the list \<^verbatim>\<open>properties.activities\<close>, and
  no activity when that field is missing or is not a list.
\<close>

definition activities_of :: "pyval \<Rightarrow> pyval list" where
  "activities_of p =
     (case Option.bind (field p ''properties'') (\<lambda>pr. field pr ''activities'') of
        Some (PList acts) \<Rightarrow> acts
      | _ \<Rightarrow> [])"

text \<open>The connection options that the specification calls required.\<close>

definition required_options :: "string list" where
  "required_options =
     [''subscription_id'', ''resource_group'', ''factory_name'', ''tenant_id'',
      ''client_id'', ''client_secret'', ''service_name'']"

text \<open>The extra query parameters of a call of \<^verbatim>\<open>_arm\<close>, none when the argument is left out.\<close>

definition extra_of :: "(string \<times> string) list option \<Rightarrow> (string \<times> string) list" where
  "extra_of params = (case params of None \<Rightarrow> [] | Some q \<Rightarrow> q)"

section \<open>Descriptors on which the source does not raise\<close>







section \<open>The end-to-end scenario of the specification\<close>

definition example_opts :: "(string \<times> string) list" where
  "example_opts =
     [(''subscription_id'', ''s1''), (''resource_group'', ''rg1''), (''factory_name'', ''f1''),
      (''tenant_id'', ''t1''), (''client_id'', ''c1''), (''client_secret'', ''x1''),
      (''service_name'', ''svc'')]"

definition example_activity :: pyval where
  "example_activity =
     PDict [(''name'', PStr ''copyA''), (''type'', PStr ''Copy''),
            (''typeProperties'', PDict [(''sink'', PDict [(''type'', PStr ''BlobSink'')])])]"

definition example_pipeline :: pyval where
  "example_pipeline =
     PDict [(''name'', PStr ''p1''), (''id'', PStr ''/sub/.../p1''),
            (''properties'',
               PDict [(''description'', PStr ''d''), (''activities'', PList [example_activity])])]"

definition token_response :: http_outcome where
  "token_response =
     Responded \<lparr>status_code = 200, json_body = Some (PDict [(''access_token'', PStr ''tok'')])\<rparr>"

definition example_source :: adf_source where
  "example_source =
     \<lparr>sub = ''s1'', rg = ''rg1'', factory = ''f1'', tenant = ''t1'', cid = ''c1'', csec = ''x1'',
      service_name = ''svc'', project = ''default'', token = PStr ''tok'',
      sess_headers = [(''Authorization'', Bearer (PStr ''tok''))],
      api_version = ''2018-06-01''\<rparr>"

text \<open>The network after the token call of the scenario, with \<open>out\<close> still to come.\<close>

definition after_token :: "http_outcome list \<Rightarrow> net" where
  "after_token out =
     \<lparr>sent =
        [\<lparr>req_method = POST,
          req_url = Absolute ''https://login.microsoftonline.com/t1/oauth2/v2.0/token'',
          req_params = [],
          req_data =
            [(''grant_type'', ''client_credentials''), (''client_id'', ''c1''),
             (''client_secret'', ''x1''), (''scope'', ''https://management.azure.com/.default'')],
          req_headers = [],
          req_timeout = 30\<rparr>],
      pending = out\<rparr>"

text \<open>A listing response with status \<open>st\<close> whose body has the given fields.\<close>

definition listing :: "int \<Rightarrow> (string \<times> pyval) list \<Rightarrow> http_outcome" where
  "listing st body = Responded \<lparr>status_code = st, json_body = Some (PDict body)\<rparr>"

text \<open>The two pipelines of the order-preservation example, with activities of any type.\<close>

definition activity_named :: "string \<Rightarrow> pyval" where
  "activity_named n = PDict [(''name'', PStr n), (''type'', PStr ''Wait'')]"

definition pipeline_A :: pyval where
  "pipeline_A =
     PDict [(''name'', PStr ''A''), (''id'', PStr ''/A''),
            (''properties'',
               PDict [(''activities'', PList [activity_named ''a1'', activity_named ''a2''])])]"

definition pipeline_B :: pyval where
  "pipeline_B =
     PDict [(''name'', PStr ''B''), (''id'', PStr ''/B''),
            (''properties'', PDict [(''activities'', PList [activity_named ''b1''])])]"

text \<open>The record that the specification expects for the scenario.\<close>

definition example_record :: create_pipeline_request where
  "example_record =
     \<lparr>name = PStr ''p1'', displayName = PStr ''p1'', description = PStr ''d'',
      service = \<lparr>ref_id = None, ref_type = ''pipelineService'', ref_name = ''svc''\<rparr>,
      tasks = [\<lparr>task_name = PStr ''copyA'', taskType = PStr ''Copy'',
                downstreamTasks = Some [PStr ''BlobSink'']\<rparr>],
      sourceUrl = PStr ''/sub/.../p1''\<rparr>"

definition wait_task :: "string \<Rightarrow> task" where
  "wait_task n = \<lparr>task_name = PStr n, taskType = PStr ''Wait'', downstreamTasks = None\<rparr>"

definition record_A :: create_pipeline_request where
  "record_A =
     \<lparr>name = PStr ''A'', displayName = PStr ''A'', description = PNone,
      service = \<lparr>ref_id = None, ref_type = ''pipelineService'', ref_name = ''svc''\<rparr>,
      tasks = [wait_task ''a1'', wait_task ''a2''],
      sourceUrl = PStr ''/A''\<rparr>"

definition record_B :: create_pipeline_request where
  "record_B =
     \<lparr>name = PStr ''B'', displayName = PStr ''B'', description = PNone,
      service = \<lparr>ref_id = None, ref_type = ''pipelineService'', ref_name = ''svc''\<rparr>,
      tasks = [wait_task ''b1''],
      sourceUrl = PStr ''/B''\<rparr>"

text \<open>A pipeline descriptor as the listing may return it, with \<^verbatim>\<open>"properties": null\<close>.\<close>

definition null_properties_pipeline :: pyval where
  "null_properties_pipeline =
     PDict [(''name'', PStr ''p0''), (''id'', PStr ''/p0''), (''properties'', PNone)]"

section \<open>Auxiliary facts\<close>

lemma bind_exn_simps [simp]:
  "bind_exn (Inl e) f = Inl e" "bind_exn (Inr x) f = f x"
  by (simp_all add: bind_exn_def)

lemma bind_exn_Inr_iff: "bind_exn m f = Inr y \<longleftrightarrow> (\<exists>x. m = Inr x \<and> f x = Inr y)"
  by (cases m) simp_all

lemma absent_or_empty_simps:
  "absent_or_empty None"
  "absent_or_empty (Some PNone)"
  "absent_or_empty (Some (PStr s)) \<longleftrightarrow> s = []"
  "absent_or_empty (Some (PList xs)) \<longleftrightarrow> xs = []"
  "absent_or_empty (Some (PDict kvs)) \<longleftrightarrow> kvs = []"
  by (simp_all add: absent_or_empty_def)

subsection \<open>The task loop\<close>

lemma build_tasks_loop_acc:
  "build_tasks_loop acts acc = Inr ts \<Longrightarrow> \<exists>ts'. ts = acc @ ts' \<and> map Inr ts' = map build_task acts"
proof (induction acts arbitrary: acc)
  case Nil
  then show ?case by simp
next
  case (Cons a acts)
  from Cons.prems obtain t where t: "build_task a = Inr t"
    and rest: "build_tasks_loop acts (acc @ [t]) = Inr ts"
    by (auto simp: bind_exn_Inr_iff)
  from Cons.IH [OF rest] obtain ts' where "ts = (acc @ [t]) @ ts'" "map Inr ts' = map build_task acts"
    by blast
  with t show ?case by simp
qed

lemma build_tasks_PList: "build_tasks (PList acts) = build_tasks_loop acts []"
  by (simp add: build_tasks_def py_or_def py_iter_def)

lemma build_tasks_list:
  "build_tasks (PList acts) = Inr ts \<Longrightarrow> map Inr ts = map build_task acts"
  using build_tasks_loop_acc [of acts "[]" ts] by (simp add: build_tasks_PList)

lemma build_tasks_falsy: "\<not> truthy a \<Longrightarrow> build_tasks a = Inr []"
  by (simp add: build_tasks_def py_or_def py_iter_def)

text \<open>
  A dictionary or a string can be iterated, but its elements are strings, which have no
  \<^verbatim>\<open>get\<close>: the loop succeeds on a list or on a value that \<^verbatim>\<open>or []\<close> replaces.
\<close>

lemma build_tasks_shape:
  assumes "build_tasks a = Inr ts"
  shows "(\<exists>acts. a = PList acts) \<or> \<not> truthy a"
proof (cases a)
  case (PDict kvs)
  show ?thesis
  proof (cases kvs)
    case Nil with PDict show ?thesis by simp
  next
    case (Cons kv rest)
    with PDict assms show ?thesis
      by (simp add: build_tasks_def py_or_def py_iter_def build_task_def py_get_def)
  qed
next
  case (PStr s)
  show ?thesis
  proof (cases s)
    case Nil with PStr show ?thesis by simp
  next
    case (Cons c rest)
    with PStr assms show ?thesis
      by (simp add: build_tasks_def py_or_def py_iter_def build_task_def py_get_def)
  qed
qed (use assms in \<open>auto simp: build_tasks_def py_or_def py_iter_def split: if_splits\<close>)

lemma build_task_non_copy:
  assumes "act = PDict kvs" and "field act ''type'' \<noteq> Some (PStr ''Copy'')"
  shows "build_task act =
     Inr \<lparr>task_name = py_or (or_none (field act ''name'')) (PStr ''activity''),
          taskType = py_or (or_none (field act ''type'')) (PStr ''Activity''),
          downstreamTasks = None\<rparr>"
  using assms
  by (auto simp: build_task_def py_get_def field_def or_none_def split: option.splits)

text \<open>On an object, only the Copy branch can raise, and what it raises is \<^verbatim>\<open>AttributeError\<close>.\<close>

lemma build_task_raises:
  assumes "act = PDict kvs" and "build_task act = Inl e"
  shows "e = AttributeError \<and> field act ''type'' = Some (PStr ''Copy'')"
proof -
  from assms have c: "field act ''type'' = Some (PStr ''Copy'')"
    using build_task_non_copy [of act kvs] by auto
  from assms show ?thesis
    unfolding c
    by (auto simp: build_task_def py_get_def bind_exn_def split: sum.splits pyval.splits if_splits)
qed




subsection \<open>The record loop\<close>

lemma yield_records_nth:
  "yield_records self ps = (recs, err) \<Longrightarrow>
     length recs \<le> length ps \<and> (err = None \<longrightarrow> length recs = length ps) \<and>
     (\<forall>i<length recs. build_record self (ps ! i) = Inr (recs ! i))"
proof (induction ps arbitrary: recs err)
  case Nil
  then show ?case by simp
next
  case (Cons p ps)
  show ?case
  proof (cases "build_record self p")
    case (Inl e)
    with Cons.prems show ?thesis by auto
  next
    case (Inr r)
    obtain rs e where y: "yield_records self ps = (rs, e)" by (cases "yield_records self ps")
    with Inr Cons.prems have eq: "recs = r # rs" "err = e" by simp_all
    from Cons.IH [OF y] Inr show ?thesis
      unfolding eq by (auto simp: nth_Cons split: nat.splits)
  qed
qed

lemma next_record_yield:
  "list_pipelines self w = (Inr (PList ps), w1) \<Longrightarrow> next_record self w = (yield_records self ps, w1)"
  by (simp add: next_record_def py_iter_def)


lemma build_record_tasks:
  assumes "build_record self p = Inr r"
  shows "map Inr (tasks r) = map build_task (activities_of p)"
proof -
  from assms obtain kvs where p: "p = PDict kvs"
    by (cases p) (simp_all add: build_record_def py_get_def)
  from assms p obtain props acts where
    props: "py_get p ''properties'' (PDict []) = Inr props"
    and acts: "py_get props ''activities'' (PList []) = Inr acts"
    and ts: "build_tasks acts = Inr (tasks r)"
    by (auto simp: build_record_def bind_exn_Inr_iff)
  from acts obtain pk where pk: "props = PDict pk"
    by (cases props) (simp_all add: py_get_def)
  from build_tasks_shape [OF ts] show ?thesis
  proof
    assume "\<exists>xs. acts = PList xs"
    then obtain xs where xs: "acts = PList xs" ..
    with ts have m: "map Inr (tasks r) = map build_task xs" by (simp add: build_tasks_list)
    have "activities_of p = xs"
      using props acts p pk xs
      by (auto simp: activities_of_def field_def py_get_def split: option.splits)
    with m show ?thesis by simp
  next
    assume f: "\<not> truthy acts"
    with ts have e: "tasks r = []" by (simp add: build_tasks_falsy)
    have "activities_of p = []"
      using props acts p pk f
      by (auto simp: activities_of_def field_def py_get_def split: option.splits pyval.splits)
    with e show ?thesis by simp
  qed
qed



subsection \<open>Construction\<close>

lemma init_first_missing:
  assumes "find (\<lambda>k. map_of opts k = None) required_options = Some k'"
  shows "init opts w = (Inl (KeyError k'), w)"
  using assms unfolding required_options_def find.simps
  by (auto simp: init_def opt_def split: if_splits)

subsection \<open>Requests\<close>

lemma request_scripted:
  "pending w = oc # rest \<Longrightarrow>
   request rq w = ((case oc of Failed e \<Rightarrow> Inl e | Responded r \<Rightarrow> Inr r),
                   \<lparr>sent = sent w @ [rq], pending = rest\<rparr>)"
  by (simp add: request_def)

lemma token_http_error:
  assumes "pending w = Responded r # rest"
    and "400 \<le> status_code r" and "status_code r < 600"
  shows "get_azure_token tenant_id client_id client_secret w =
           (Inl (HTTPError (status_code r)),
            \<lparr>sent = sent w @
               [\<lparr>req_method = POST,
                 req_url = Absolute (''https://login.microsoftonline.com/'' @ tenant_id
                                      @ ''/oauth2/v2.0/token''),
                 req_params = [],
                 req_data =
                   [(''grant_type'', ''client_credentials''),
                    (''client_id'', client_id),
                    (''client_secret'', client_secret),
                    (''scope'', ''https://management.azure.com/.default'')],
                 req_headers = [],
                 req_timeout = 30\<rparr>],
             pending = rest\<rparr>)"
  using assms by (simp add: get_azure_token_def request_scripted raise_for_status_def)

lemma init_http_error:
  assumes "pending w = Responded r # rest"
    and "400 \<le> status_code r" and "status_code r < 600"
    and "\<forall>k\<in>set required_options. map_of opts k \<noteq> None"
  shows "fst (init opts w) = Inl (HTTPError (status_code r))"
  using assms(4)
  by (auto simp: required_options_def init_def opt_def token_http_error [OF assms(1-3)])

lemma init_example:
  "init example_opts \<lparr>sent = [], pending = token_response # out\<rparr> =
     (Inr example_source, after_token out)"
  by (simp add: init_def opt_def example_opts_def token_response_def get_azure_token_def
      request_def raise_for_status_def resp_json_def py_index_def example_source_def
      after_token_def)

text \<open>On a dictionary, whose keys are distinct, \<^verbatim>\<open>update\<close> is the override of maps.\<close>

lemma dict_update_map_of:
  "distinct (map fst q) \<Longrightarrow> map_of (dict_update p q) = map_of p ++ map_of q"
proof (induction q arbitrary: p)
  case Nil
  then show ?case by (simp add: dict_update_def)
next
  case (Cons kv q)
  obtain k v where kv: "kv = (k, v)" by (cases kv)
  from Cons.prems kv have d: "distinct (map fst q)" and k: "k \<notin> fst ` set q" by simp_all
  from k have n: "map_of q k = None" by (simp add: map_of_eq_None_iff)
  have e: "map_of (dict_update p ((k, v) # q)) = map_of (AList.update k v p) ++ map_of q"
    using Cons.IH [OF d, of "AList.update k v p"] by (simp add: dict_update_def)
  show ?case unfolding kv e
    by (rule ext) (simp add: map_add_def AList.update_conv n split: option.splits)
qed

section \<open>The claims\<close>







text \<open>
  Claim C4: the records come in the order in which the listing returned the pipeline
  descriptors, the i-th record being built from the i-th descriptor, and the tasks of each
  record are the tasks of that pipeline's activity descriptors, one per activity and in
  their order. Pipelines \<open>[A, B]\<close> with activities \<open>[a1, a2]\<close> and \<open>[b1]\<close> yield
  \<open>[record(A, tasks=[a1, a2]), record(B, tasks=[b1])]\<close>.
\<close>

theorem next_record_order:
  assumes "list_pipelines self w = (Inr (PList ps), w1)"
    and "next_record self w = ((recs, err), w2)"
  shows "(err = None \<longrightarrow> length recs = length ps) \<and>
     (\<forall>i<length recs.
        build_record self (ps ! i) = Inr (recs ! i) \<and>
        map Inr (tasks (recs ! i)) = map build_task (activities_of (ps ! i)))"
proof -
  from assms have y: "yield_records self ps = (recs, err)"
    by (simp add: next_record_yield)
  from yield_records_nth [OF y] show ?thesis
    by (auto dest: build_record_tasks)
qed

theorem next_record_order_witness:
  "list_pipelines example_source
      (after_token [listing 200 [(''value'', PList [pipeline_A, pipeline_B])]])
     = (Inr (PList [pipeline_A, pipeline_B]),
        snd (list_pipelines example_source
               (after_token [listing 200 [(''value'', PList [pipeline_A, pipeline_B])]]))) \<and>
   next_record example_source
      (after_token [listing 200 [(''value'', PList [pipeline_A, pipeline_B])]])
     = (([record_A, record_B], None),
        snd (list_pipelines example_source
               (after_token [listing 200 [(''value'', PList [pipeline_A, pipeline_B])]]))) \<and>
   length [record_A, record_B] = length [pipeline_A, pipeline_B] \<and>
   build_record example_source pipeline_A = Inr record_A \<and>
   build_record example_source pipeline_B = Inr record_B \<and>
   map Inr (tasks record_A) = map build_task [activity_named ''a1'', activity_named ''a2''] \<and>
   map Inr (tasks record_B) = map build_task [activity_named ''b1''] \<and>
   map task_name (tasks record_A) = [PStr ''a1'', PStr ''a2''] \<and>
   map task_name (tasks record_B) = [PStr ''b1'']"
proof -
  let ?w = "after_token [listing 200 [(''value'', PList [pipeline_A, pipeline_B])]]"
  have "fst (list_pipelines example_source ?w) = Inr (PList [pipeline_A, pipeline_B])"
    by (simp add: list_pipelines_def arm_def Let_def request_def raise_for_status_def
        resp_json_def py_get_def after_token_def listing_def)
  then have a: "list_pipelines example_source ?w
      = (Inr (PList [pipeline_A, pipeline_B]), snd (list_pipelines example_source ?w))"
    by (simp add: prod_eq_iff)
  have t: "build_task (activity_named n) = Inr (wait_task n)" if "n \<noteq> []" for n
    using that
    by (simp add: build_task_def py_get_def py_or_def activity_named_def wait_task_def)
  have rA: "build_record example_source pipeline_A = Inr record_A"
    by (simp add: build_record_def build_tasks_def py_get_def py_or_def py_iter_def t
        pipeline_A_def record_A_def example_source_def)
  have rB: "build_record example_source pipeline_B = Inr record_B"
    by (simp add: build_record_def build_tasks_def py_get_def py_or_def py_iter_def t
        pipeline_B_def record_B_def example_source_def)
  have b: "next_record example_source ?w
      = (([record_A, record_B], None), snd (list_pipelines example_source ?w))"
    using next_record_yield [OF a] rA rB by simp
  have aA: "activities_of pipeline_A = [activity_named ''a1'', activity_named ''a2'']"
    and aB: "activities_of pipeline_B = [activity_named ''b1'']"
    by (simp_all add: activities_of_def field_def pipeline_A_def pipeline_B_def)
  from next_record_order [OF a b]
  have "\<forall>i<2. build_record example_source ([pipeline_A, pipeline_B] ! i)
                  = Inr ([record_A, record_B] ! i) \<and>
               map Inr (tasks ([record_A, record_B] ! i))
                  = map build_task (activities_of ([pipeline_A, pipeline_B] ! i))"
    by simp
  then have "map Inr (tasks record_A) = map build_task (activities_of pipeline_A)"
    and "map Inr (tasks record_B) = map build_task (activities_of pipeline_B)"
    by (auto dest: spec [of _ 0] spec [of _ 1])
  then show ?thesis
    using a b rA rB aA aB by (simp add: record_A_def record_B_def wait_task_def)
qed

text \<open>
  Claim C5: when the connection options lack a required option (\<^verbatim>\<open>subscription_id\<close>,
  \<^verbatim>\<open>resource_group\<close>, \<^verbatim>\<open>factory_name\<close>, \<^verbatim>\<open>tenant_id\<close>, \<^verbatim>\<open>client_id\<close>, \<^verbatim>\<open>client_secret\<close> or
  \<^verbatim>\<open>service_name\<close>), constructing the extractor fails with the configuration error, which is
  the \<^verbatim>\<open>KeyError\<close> of a missing required key, and the network is as it was before: no
  request has been sent, the token request included.
\<close>

theorem init_missing_option:
  assumes "k \<in> set required_options" and "map_of opts k = None"
  shows "\<exists>k'. k' \<in> set required_options \<and> map_of opts k' = None \<and>
           init opts w = (Inl (KeyError k'), w)"
proof -
  from assms have "find (\<lambda>k. map_of opts k = None) required_options \<noteq> None"
    by (auto simp: find_None_iff)
  then obtain k' where f: "find (\<lambda>k. map_of opts k = None) required_options = Some k'"
    by blast
  then have "k' \<in> set required_options" "map_of opts k' = None"
    by (auto simp: find_Some_iff)
  with init_first_missing [OF f] show ?thesis by blast
qed

text \<open>The options of the scenario without the client secret, and a token that is ready.\<close>

theorem init_missing_option_witness:
  "''client_secret'' \<in> set required_options \<and>
   map_of [(''subscription_id'', ''s1''), (''resource_group'', ''rg1''),
           (''factory_name'', ''f1''), (''tenant_id'', ''t1''), (''client_id'', ''c1''),
           (''service_name'', ''svc'')] ''client_secret'' = None \<and>
   (\<exists>k'. k' \<in> set required_options \<and>
      init [(''subscription_id'', ''s1''), (''resource_group'', ''rg1''),
            (''factory_name'', ''f1''), (''tenant_id'', ''t1''), (''client_id'', ''c1''),
            (''service_name'', ''svc'')] \<lparr>sent = [], pending = [token_response]\<rparr>
        = (Inl (KeyError k'), \<lparr>sent = [], pending = [token_response]\<rparr>))"
proof -
  have a: "''client_secret'' \<in> set required_options"
    by (simp add: required_options_def)
  have b: "map_of [(''subscription_id'', ''s1''), (''resource_group'', ''rg1''),
           (''factory_name'', ''f1''), (''tenant_id'', ''t1''), (''client_id'', ''c1''),
           (''service_name'', ''svc'')] ''client_secret'' = None"
    by simp
  from init_missing_option [OF a b, of "\<lparr>sent = [], pending = [token_response]\<rparr>"] a b
  show ?thesis by blast
qed

text \<open>
  Claim C6, as amended: for every response of the token endpoint with a status from 400 to
  599, token acquisition fails with the HTTP error carrying that status, and so does the
  construction of an extractor whose options are complete; for every response of the
  listing endpoint with such a status, extraction fails with the HTTP error carrying the
  status and emits no record. In each case one request has been sent and the rest of the
  script is untouched: the error reaches the caller without a retry. The claim says this
  of every status outside 200 to 299; \<^verbatim>\<open>raise_for_status\<close> lets the other ones (below
  200, 300 to 399, 600 and above) through.
\<close>

theorem http_error_propagates:
  assumes "pending w = Responded r # rest"
    and "400 \<le> status_code r" and "status_code r < 600"
  shows "fst (get_azure_token tenant_id client_id client_secret w) = Inl (HTTPError (status_code r)) \<and>
         pending (snd (get_azure_token tenant_id client_id client_secret w)) = rest \<and>
         length (sent (snd (get_azure_token tenant_id client_id client_secret w)))
           = Suc (length (sent w)) \<and>
         ((\<forall>k\<in>set required_options. map_of opts k \<noteq> None) \<longrightarrow>
            fst (init opts w) = Inl (HTTPError (status_code r))) \<and>
         fst (next_record self w) = ([], Some (HTTPError (status_code r))) \<and>
         pending (snd (next_record self w)) = rest \<and>
         length (sent (snd (next_record self w))) = Suc (length (sent w))"
  using assms init_http_error [OF assms, of opts]
  by (simp add: get_azure_token_def next_record_def list_pipelines_def arm_def Let_def
      request_scripted raise_for_status_def)

text \<open>A 401 from either endpoint, with a good token response behind it that is never used.\<close>

theorem http_error_propagates_witness:
  "pending \<lparr>sent = [], pending = [Responded \<lparr>status_code = 401, json_body = None\<rparr>, token_response]\<rparr>
     = Responded \<lparr>status_code = 401, json_body = None\<rparr> # [token_response] \<and>
   400 \<le> status_code \<lparr>status_code = 401, json_body = None\<rparr> \<and>
   status_code \<lparr>status_code = 401, json_body = None\<rparr> < 600 \<and>
   fst (get_azure_token ''t1'' ''c1'' ''x1''
          \<lparr>sent = [], pending = [Responded \<lparr>status_code = 401, json_body = None\<rparr>, token_response]\<rparr>)
     = Inl (HTTPError 401) \<and>
   pending (snd (get_azure_token ''t1'' ''c1'' ''x1''
          \<lparr>sent = [], pending = [Responded \<lparr>status_code = 401, json_body = None\<rparr>, token_response]\<rparr>))
     = [token_response] \<and>
   fst (init example_opts
          \<lparr>sent = [], pending = [Responded \<lparr>status_code = 401, json_body = None\<rparr>, token_response]\<rparr>)
     = Inl (HTTPError 401) \<and>
   fst (next_record example_source
          \<lparr>sent = [], pending = [Responded \<lparr>status_code = 401, json_body = None\<rparr>, token_response]\<rparr>)
     = ([], Some (HTTPError 401)) \<and>
   length (sent (snd (next_record example_source
          \<lparr>sent = [], pending = [Responded \<lparr>status_code = 401, json_body = None\<rparr>, token_response]\<rparr>)))
     = 1"
proof -
  let ?r = "\<lparr>status_code = 401, json_body = None\<rparr>"
  let ?w = "\<lparr>sent = [], pending = [Responded ?r, token_response]\<rparr>"
  have a: "pending ?w = Responded ?r # [token_response]" by simp
  have b: "400 \<le> status_code ?r" and c: "status_code ?r < 600" by simp_all
  have d: "\<forall>k\<in>set required_options. map_of example_opts k \<noteq> None"
    by (simp add: required_options_def example_opts_def)
  from http_error_propagates [OF a b c, of "''t1''" "''c1''" "''x1''" example_opts example_source] d
  show ?thesis by simp
qed

text \<open>
  Against the claim as stated: a response with status 300 is outside 200 to 299, and neither
  call fails on it. The token call returns the token of the body and the listing is read.
\<close>

theorem status_300_accepted:
  "fst (get_azure_token ''t1'' ''c1'' ''x1''
          \<lparr>sent = [],
           pending = [Responded \<lparr>status_code = 300,
                                 json_body = Some (PDict [(''access_token'', PStr ''tok'')])\<rparr>]\<rparr>)
     = Inr (PStr ''tok'') \<and>
   fst (next_record example_source (after_token [listing 300 [(''value'', PList [example_pipeline])]]))
     = ([example_record], None)"
proof -
  let ?w = "after_token [listing 300 [(''value'', PList [example_pipeline])]]"
  have "fst (list_pipelines example_source ?w) = Inr (PList [example_pipeline])"
    by (simp add: list_pipelines_def arm_def Let_def request_def raise_for_status_def
        resp_json_def py_get_def after_token_def listing_def)
  then have a: "list_pipelines example_source ?w
      = (Inr (PList [example_pipeline]), snd (list_pipelines example_source ?w))"
    by (simp add: prod_eq_iff)
  have r: "build_record example_source example_pipeline = Inr example_record"
    by (simp add: build_record_def build_tasks_def build_task_def py_get_def py_or_def
        py_iter_def example_pipeline_def example_activity_def example_record_def
        example_source_def)
  have "fst (get_azure_token ''t1'' ''c1'' ''x1''
          \<lparr>sent = [],
           pending = [Responded \<lparr>status_code = 300,
                                 json_body = Some (PDict [(''access_token'', PStr ''tok'')])\<rparr>]\<rparr>)
     = Inr (PStr ''tok'')"
    by (simp add: get_azure_token_def request_def raise_for_status_def resp_json_def py_index_def)
  with next_record_yield [OF a] r show ?thesis by simp
qed

text \<open>
  Claim C7: building the tasks never raises, whatever is malformed or missing in an
  activity descriptor, a \<^verbatim>\<open>null\<close> \<^verbatim>\<open>typeProperties\<close> included. The source guards a \<^verbatim>\<open>null\<close>
  sink with \<^verbatim>\<open>or {}\<close> but not a \<^verbatim>\<open>null\<close> \<^verbatim>\<open>typeProperties\<close>: on the Copy activity
  \<^verbatim>\<open>{"name": "copyA", "type": "Copy", "typeProperties": null}\<close> the call \<^verbatim>\<open>tp.get\<close> is made
  on \<^verbatim>\<open>None\<close>, the step raises \<^verbatim>\<open>AttributeError\<close> and no task is produced. (The step
  raises on exactly the activities that are not well formed, by \<open>build_task_succeeds_iff\<close>.)
\<close>

theorem build_tasks_null_typeProperties:
  "build_tasks (PList [PDict [(''name'', PStr ''copyA''), (''type'', PStr ''Copy''),
       (''typeProperties'', PNone)]]) = Inl AttributeError"
  by (simp add: build_tasks_def build_task_def py_iter_def py_or_def py_get_def)

text \<open>
  Claim C8, as amended: for every path and every optional dictionary of extra query
  parameters (a dictionary: its keys are distinct), a call of \<^verbatim>\<open>_arm\<close> on a constructed
  extractor sends one GET request that carries every extra parameter and the parameter
  \<^verbatim>\<open>api-version\<close>, whose value is \<^verbatim>\<open>"2018-06-01"\<close> unless the extra parameters have an
  \<^verbatim>\<open>api-version\<close> entry of their own, which then takes its place; and the request carries
  the \<^verbatim>\<open>Authorization\<close> header that the constructor set on the session, the bearer token,
  whatever the call. The claim says the fixed value is always sent.
\<close>

theorem arm_request:
  assumes "init opts w0 = (Inr self, w1)"
    and "distinct (map fst (extra_of params))"
  shows "\<exists>rq. sent (snd (arm self path params w)) = sent w @ [rq] \<and>
           req_method rq = GET \<and>
           map_of (req_headers rq) ''Authorization'' = Some (Bearer (token self)) \<and>
           map_of (req_params rq) ''api-version'' =
             (case map_of (extra_of params) ''api-version'' of
                None \<Rightarrow> Some ''2018-06-01'' | Some v \<Rightarrow> Some v) \<and>
           (\<forall>k v. map_of (extra_of params) k = Some v \<longrightarrow> map_of (req_params rq) k = Some v)"
proof -
  from assms(1) have h: "sess_headers self = [(''Authorization'', Bearer (token self))]"
    and v: "api_version self = ''2018-06-01''"
    by (auto simp: init_def split: sum.splits prod.splits)
  define p where "p = (case params of None \<Rightarrow> [(''api-version'', api_version self)]
     | Some q \<Rightarrow> if q \<noteq> [] then dict_update [(''api-version'', api_version self)] q
                 else [(''api-version'', api_version self)])"
  have m: "map_of p = map_of [(''api-version'', ''2018-06-01'')] ++ map_of (extra_of params)"
    using assms(2) by (auto simp: p_def extra_of_def v dict_update_map_of split: option.splits)
  define rq where "rq = \<lparr>req_method = GET, req_url = Urljoin ARM path, req_params = p,
     req_data = [], req_headers = sess_headers self, req_timeout = 60\<rparr>"
  have s: "sent (snd (arm self path params w)) = sent w @ [rq]"
    by (cases "pending w") (simp_all add: arm_def request_def Let_def rq_def p_def)
  have "map_of (req_params rq) ''api-version'' =
             (case map_of (extra_of params) ''api-version'' of
                None \<Rightarrow> Some ''2018-06-01'' | Some v \<Rightarrow> Some v)"
    by (simp add: rq_def m map_add_def split: option.splits)
  moreover have "\<forall>k v. map_of (extra_of params) k = Some v \<longrightarrow> map_of (req_params rq) k = Some v"
    by (simp add: rq_def m map_add_def)
  moreover have "req_method rq = GET"
    and "map_of (req_headers rq) ''Authorization'' = Some (Bearer (token self))"
    by (simp_all add: rq_def h)
  ultimately show ?thesis using s by blast
qed

text \<open>The extractor of the scenario, asked for a page size.\<close>

theorem arm_request_witness:
  "init example_opts \<lparr>sent = [], pending = [token_response]\<rparr> = (Inr example_source, after_token []) \<and>
   distinct (map fst (extra_of (Some [(''$top'', ''10'')]))) \<and>
   (\<exists>rq. sent (snd (arm example_source ''/x'' (Some [(''$top'', ''10'')]) (after_token [])))
            = sent (after_token []) @ [rq] \<and>
      req_method rq = GET \<and>
      map_of (req_headers rq) ''Authorization'' = Some (Bearer (PStr ''tok'')) \<and>
      map_of (req_params rq) ''api-version'' = Some ''2018-06-01'' \<and>
      map_of (req_params rq) ''$top'' = Some ''10'')"
proof -
  have a: "init example_opts \<lparr>sent = [], pending = [token_response]\<rparr>
             = (Inr example_source, after_token [])"
    by (rule init_example)
  have b: "distinct (map fst (extra_of (Some [(''$top'', ''10'')])))"
    by (simp add: extra_of_def)
  from arm_request [OF a b, of "''/x''" "after_token []"]
  obtain rq where
    "sent (snd (arm example_source ''/x'' (Some [(''$top'', ''10'')]) (after_token [])))
       = sent (after_token []) @ [rq]"
    and "req_method rq = GET"
    and "map_of (req_headers rq) ''Authorization'' = Some (Bearer (token example_source))"
    and "map_of (req_params rq) ''api-version'' =
           (case map_of (extra_of (Some [(''$top'', ''10'')])) ''api-version'' of
              None \<Rightarrow> Some ''2018-06-01'' | Some v \<Rightarrow> Some v)"
    and "\<forall>k v. map_of (extra_of (Some [(''$top'', ''10'')])) k = Some v
           \<longrightarrow> map_of (req_params rq) k = Some v"
    by blast
  then have
    "sent (snd (arm example_source ''/x'' (Some [(''$top'', ''10'')]) (after_token [])))
       = sent (after_token []) @ [rq] \<and>
     req_method rq = GET \<and>
     map_of (req_headers rq) ''Authorization'' = Some (Bearer (PStr ''tok'')) \<and>
     map_of (req_params rq) ''api-version'' = Some ''2018-06-01'' \<and>
     map_of (req_params rq) ''$top'' = Some ''10''"
    by (simp add: extra_of_def example_source_def)
  with a b show ?thesis by blast
qed

text \<open>
  Against the claim as stated: extra parameters with an \<^verbatim>\<open>api-version\<close> of their own. The
  request that is sent carries that value, and \<^verbatim>\<open>"2018-06-01"\<close> is gone.
\<close>

theorem arm_api_version_overridden:
  "sent (snd (arm example_source ''/x'' (Some [(''api-version'', ''2020-01-01'')])
                \<lparr>sent = [], pending = []\<rparr>))
     = [\<lparr>req_method = GET, req_url = Urljoin ''https://management.azure.com/'' ''/x'',
         req_params = [(''api-version'', ''2020-01-01'')], req_data = [],
         req_headers = [(''Authorization'', Bearer (PStr ''tok''))], req_timeout = 60\<rparr>]"
  by (simp add: arm_def Let_def request_def dict_update_def ARM_def example_source_def)

text \<open>
  Claim C9: for every listing response that is not refused for its status and whose body is
  a JSON object, the listing step returns the \<^verbatim>\<open>value\<close> field of that first page as it is,
  and the empty list when the body has no \<^verbatim>\<open>value\<close> field; it sends exactly one request and
  leaves whatever the server would answer next unread, so no continuation link is followed.
\<close>

theorem list_pipelines_first_page:
  assumes "pending w = Responded r # rest"
    and "\<not> (400 \<le> status_code r \<and> status_code r < 600)"
    and "json_body r = Some (PDict body)"
  shows "fst (list_pipelines self w) =
           Inr (case map_of body ''value'' of None \<Rightarrow> PList [] | Some v \<Rightarrow> v) \<and>
         pending (snd (list_pipelines self w)) = rest \<and>
         length (sent (snd (list_pipelines self w))) = Suc (length (sent w))"
  using assms
  by (simp add: list_pipelines_def arm_def Let_def request_scripted raise_for_status_def
      resp_json_def py_get_def)

text \<open>
  A first page with a \<^verbatim>\<open>nextLink\<close> and a second page waiting: the first page's pipelines are
  returned and the second page stays unread. A page with no \<^verbatim>\<open>value\<close> gives the empty list.
\<close>

theorem list_pipelines_first_page_witness:
  "fst (list_pipelines example_source
          (after_token
             [listing 200 [(''value'', PList [pipeline_A]),
                           (''nextLink'', PStr ''https://management.azure.com/next'')],
              listing 200 [(''value'', PList [pipeline_B])]]))
     = Inr (PList [pipeline_A]) \<and>
   pending (snd (list_pipelines example_source
          (after_token
             [listing 200 [(''value'', PList [pipeline_A]),
                           (''nextLink'', PStr ''https://management.azure.com/next'')],
              listing 200 [(''value'', PList [pipeline_B])]])))
     = [listing 200 [(''value'', PList [pipeline_B])]] \<and>
   length (sent (snd (list_pipelines example_source
          (after_token
             [listing 200 [(''value'', PList [pipeline_A]),
                           (''nextLink'', PStr ''https://management.azure.com/next'')],
              listing 200 [(''value'', PList [pipeline_B])]])))) = 2 \<and>
   fst (list_pipelines example_source (after_token [listing 200 []])) = Inr (PList [])"
proof -
  let ?body = "[(''value'', PList [pipeline_A]),
                (''nextLink'', PStr ''https://management.azure.com/next'')]"
  let ?rest = "[listing 200 [(''value'', PList [pipeline_B])]]"
  let ?r = "\<lparr>status_code = 200, json_body = Some (PDict ?body)\<rparr>"
  let ?e = "\<lparr>status_code = 200, json_body = Some (PDict [])\<rparr>"
  have w: "after_token (listing 200 ?body # ?rest)
             = \<lparr>sent = sent (after_token []), pending = Responded ?r # ?rest\<rparr>"
    and w': "after_token [listing 200 []]
             = \<lparr>sent = sent (after_token []), pending = Responded ?e # []\<rparr>"
    by (simp_all add: after_token_def listing_def)
  have l: "length (sent (after_token [])) = 1"
    by (simp add: after_token_def)
  from list_pipelines_first_page
         [of "\<lparr>sent = sent (after_token []), pending = Responded ?r # ?rest\<rparr>" ?r ?rest ?body
             example_source]
       list_pipelines_first_page
         [of "\<lparr>sent = sent (after_token []), pending = Responded ?e # []\<rparr>" ?e "[]" "[]"
             example_source]
  show ?thesis
    unfolding w w' by (simp add: l)
qed

text \<open>
  Claim C10: for every pipeline descriptor whose \<^verbatim>\<open>properties.activities\<close> field is absent,
  \<^verbatim>\<open>null\<close> or the empty list, the record is still produced, with an empty task list and
  its other fields as usual, and no error is raised. The source replaces missing
  \<^verbatim>\<open>properties\<close> by \<^verbatim>\<open>{}\<close> and \<^verbatim>\<open>null\<close> activities by \<^verbatim>\<open>[]\<close> (\<^verbatim>\<open>activities or []\<close>), but it
  does not replace \<^verbatim>\<open>null\<close> \<^verbatim>\<open>properties\<close>: on the descriptor
  \<^verbatim>\<open>{"name": "p0", "id": "/p0", "properties": null}\<close>, which has no \<^verbatim>\<open>properties.activities\<close>,
  the call \<^verbatim>\<open>props.get\<close> is made on \<^verbatim>\<open>None\<close>, the generator raises \<^verbatim>\<open>AttributeError\<close> and no
  record is emitted.
\<close>

theorem build_record_null_properties:
  "Option.bind (field null_properties_pipeline ''properties'') (\<lambda>pr. field pr ''activities'') = None \<and>
   activities_of null_properties_pipeline = [] \<and>
   build_record example_source null_properties_pipeline = Inl AttributeError \<and>
   fst (next_record example_source
          (after_token [listing 200 [(''value'', PList [null_properties_pipeline])]]))
     = ([], Some AttributeError)"
proof -
  let ?w = "after_token [listing 200 [(''value'', PList [null_properties_pipeline])]]"
  have "fst (list_pipelines example_source ?w) = Inr (PList [null_properties_pipeline])"
    by (simp add: list_pipelines_def arm_def Let_def request_def raise_for_status_def
        resp_json_def py_get_def after_token_def listing_def)
  then have a: "list_pipelines example_source ?w
      = (Inr (PList [null_properties_pipeline]), snd (list_pipelines example_source ?w))"
    by (simp add: prod_eq_iff)
  have r: "build_record example_source null_properties_pipeline = Inl AttributeError"
    by (simp add: build_record_def py_get_def null_properties_pipeline_def)
  have "Option.bind (field null_properties_pipeline ''properties'') (\<lambda>pr. field pr ''activities'')
          = None"
    and "activities_of null_properties_pipeline = []"
    by (simp_all add: activities_of_def field_def null_properties_pipeline_def)
  with next_record_yield [OF a] r show ?thesis by simp
qed

text \<open>
  Where the source does what the claim says: when the \<^verbatim>\<open>properties\<close> are missing, or are an
  object whose activities are missing, \<^verbatim>\<open>null\<close> or the empty list, the record is built and
  yielded with an empty task list and its other fields as usual.
\<close>

lemma build_record_empty_tasks:
  assumes "p = PDict kvs"
    and "map_of kvs ''properties'' = None \<or>
         (\<exists>pr. map_of kvs ''properties'' = Some (PDict pr) \<and>
               map_of pr ''activities'' \<in> {None, Some PNone, Some (PList [])})"
  shows "\<exists>r. build_record self p = Inr r \<and>
           yield_records self [p] = ([r], None) \<and>
           tasks r = [] \<and>
           name r = or_none (field p ''name'') \<and>
           displayName r = or_none (field p ''name'') \<and>
           description r =
             or_none (Option.bind (field p ''properties'') (\<lambda>pr. field pr ''description'')) \<and>
           service r = \<lparr>ref_id = None, ref_type = ''pipelineService'',
                        ref_name = service_name self\<rparr> \<and>
           sourceUrl r = (if absent_or_empty (field p ''id'') then PStr []
                          else or_none (field p ''id''))"
proof -
  from assms obtain ts where b: "build_record self p =
      Inr \<lparr>name = or_none (field p ''name''),
           displayName = or_none (field p ''name''),
           description =
             or_none (Option.bind (field p ''properties'') (\<lambda>pr. field pr ''description'')),
           service = \<lparr>ref_id = None, ref_type = ''pipelineService'',
                      ref_name = service_name self\<rparr>,
           tasks = ts,
           sourceUrl = (if absent_or_empty (field p ''id'') then PStr []
                        else or_none (field p ''id''))\<rparr>" and ts: "ts = []"
    by (auto simp: build_record_def py_get_def field_def or_none_def absent_or_empty_def
        py_or_def build_tasks_falsy build_tasks_PList split: option.splits)
  then show ?thesis by simp
qed

text \<open>A pipeline whose activities are \<^verbatim>\<open>null\<close>, and one with no \<^verbatim>\<open>properties\<close> at all.\<close>

lemma build_record_empty_tasks_example:
  "(\<exists>r. build_record example_source
           (PDict [(''name'', PStr ''p0''), (''id'', PStr ''/p0''),
                   (''properties'',
                      PDict [(''description'', PStr ''d''), (''activities'', PNone)])]) = Inr r \<and>
        tasks r = [] \<and> name r = PStr ''p0'' \<and> displayName r = PStr ''p0'' \<and>
        description r = PStr ''d'' \<and>
        service r = \<lparr>ref_id = None, ref_type = ''pipelineService'', ref_name = ''svc''\<rparr> \<and>
        sourceUrl r = PStr ''/p0'') \<and>
   (\<exists>r. build_record example_source (PDict [(''name'', PStr ''p0'')]) = Inr r \<and>
        yield_records example_source [PDict [(''name'', PStr ''p0'')]] = ([r], None) \<and>
        tasks r = [] \<and> name r = PStr ''p0'' \<and> description r = PNone \<and>
        sourceUrl r = PStr [])"
proof -
  let ?k1 = "[(''name'', PStr ''p0''), (''id'', PStr ''/p0''),
             (''properties'', PDict [(''description'', PStr ''d''), (''activities'', PNone)])]"
  let ?k2 = "[(''name'', PStr ''p0'')]"
  have a: "map_of ?k1 ''properties'' = None \<or>
         (\<exists>pr. map_of ?k1 ''properties'' = Some (PDict pr) \<and>
               map_of pr ''activities'' \<in> {None, Some PNone, Some (PList [])})"
    by simp
  have b: "map_of ?k2 ''properties'' = None \<or>
         (\<exists>pr. map_of ?k2 ''properties'' = Some (PDict pr) \<and>
               map_of pr ''activities'' \<in> {None, Some PNone, Some (PList [])})"
    by simp
  have n: "service_name example_source = ''svc''"
    by (simp add: example_source_def)
  from build_record_empty_tasks [OF refl a, of example_source]
  obtain r1 where "build_record example_source (PDict ?k1) = Inr r1"
    and "tasks r1 = []"
    and "name r1 = or_none (field (PDict ?k1) ''name'')"
    and "displayName r1 = or_none (field (PDict ?k1) ''name'')"
    and "description r1 =
           or_none (Option.bind (field (PDict ?k1) ''properties'') (\<lambda>pr. field pr ''description''))"
    and "service r1 = \<lparr>ref_id = None, ref_type = ''pipelineService'',
                        ref_name = service_name example_source\<rparr>"
    and "sourceUrl r1 = (if absent_or_empty (field (PDict ?k1) ''id'') then PStr []
                         else or_none (field (PDict ?k1) ''id''))"
    by blast
  then have 1: "build_record example_source (PDict ?k1) = Inr r1 \<and>
        tasks r1 = [] \<and> name r1 = PStr ''p0'' \<and> displayName r1 = PStr ''p0'' \<and>
        description r1 = PStr ''d'' \<and>
        service r1 = \<lparr>ref_id = None, ref_type = ''pipelineService'', ref_name = ''svc''\<rparr> \<and>
        sourceUrl r1 = PStr ''/p0''"
    by (simp add: field_def or_none_def absent_or_empty_def n)
  from build_record_empty_tasks [OF refl b, of example_source]
  obtain r2 where "build_record example_source (PDict ?k2) = Inr r2"
    and "yield_records example_source [PDict ?k2] = ([r2], None)"
    and "tasks r2 = []"
    and "name r2 = or_none (field (PDict ?k2) ''name'')"
    and "description r2 =
           or_none (Option.bind (field (PDict ?k2) ''properties'') (\<lambda>pr. field pr ''description''))"
    and "sourceUrl r2 = (if absent_or_empty (field (PDict ?k2) ''id'') then PStr []
                         else or_none (field (PDict ?k2) ''id''))"
    by blast
  then have 2: "build_record example_source (PDict ?k2) = Inr r2 \<and>
        yield_records example_source [PDict ?k2] = ([r2], None) \<and>
        tasks r2 = [] \<and> name r2 = PStr ''p0'' \<and> description r2 = PNone \<and>
        sourceUrl r2 = PStr []"
    by (simp add: field_def or_none_def absent_or_empty_def)
  from 1 2 show ?thesis by blast
qed

end
